theory Spec2Isabelle
  imports Complex_Main
begin

section \<open>Values, columns and frames\<close>

text \<open>
  A float64 cell is a number or NaN. Numbers are reals: arithmetic is exact, rounding is
  not modelled. Comparisons with NaN are false and arithmetic on NaN gives NaN, as in
  IEEE 754 and numpy. An int64 column is a float column whose cells are all numbers; the
  rounding of an int64 cell beyond 2^53 when it is compared with a float is not modelled
  either.
\<close>

datatype fl = Num real | NaN

fun fl_le :: "fl \<Rightarrow> fl \<Rightarrow> bool" where
  "fl_le (Num a) (Num b) = (a \<le> b)"
| "fl_le _ _ = False"

fun fl_ge :: "fl \<Rightarrow> fl \<Rightarrow> bool" where
  "fl_ge (Num a) (Num b) = (a \<ge> b)"
| "fl_ge _ _ = False"

fun fl_add :: "fl \<Rightarrow> fl \<Rightarrow> fl" where
  "fl_add (Num a) (Num b) = Num (a + b)"
| "fl_add _ _ = NaN"

fun fl_sub :: "fl \<Rightarrow> fl \<Rightarrow> fl" where
  "fl_sub (Num a) (Num b) = Num (a - b)"
| "fl_sub _ _ = NaN"

fun fl_mul :: "fl \<Rightarrow> fl \<Rightarrow> fl" where
  "fl_mul (Num a) (Num b) = Num (a * b)"
| "fl_mul _ _ = NaN"

text \<open>
  A column has one dtype. A categorical column carries its categories and, per row, a
  category or nothing (pandas shows the latter as NaN).
\<close>

datatype column =
    FloatCol "fl list"
  | BoolCol "bool list"
  | ObjCol "string list"
  | CatCol "string list" "string option list"

text \<open>
  The exceptions of the model. All but \<open>KeyboardInterrupt\<close> derive from Python's
  \<open>Exception\<close>; \<open>KeyboardInterrupt\<close> derives from \<open>BaseException\<close> only, so
  \<open>except Exception\<close> does not catch it.
\<close>

datatype exn =
    KeyError string
  | TypeError
  | ValueError
  | OSError
  | ParserError
  | URLError
  | KeyboardInterrupt

definition is_Exception :: "exn \<Rightarrow> bool" where
  "is_Exception e = (e \<noteq> KeyboardInterrupt)"

text \<open>
  A DataFrame: the row labels and the named columns, in order. \<open>read_csv\<close> gives
  distinct column names and the labels \<open>0..n-1\<close>.
\<close>

record dataframe =
  index :: "nat list"
  cols :: "(string \<times> column) list"

record series =
  sname :: string
  sindex :: "nat list"
  svalues :: column

definition columns :: "dataframe \<Rightarrow> string list" where
  "columns df = map fst (cols df)"

definition shape :: "dataframe \<Rightarrow> nat \<times> nat" where
  "shape df = (length (index df), length (cols df))"

text \<open>\<open>df[c]\<close>: the column named c, KeyError when there is none.\<close>

definition getitem :: "dataframe \<Rightarrow> string \<Rightarrow> exn + column" where
  "getitem df c =
     (case map_of (cols df) c of
        None \<Rightarrow> Inl (KeyError c)
      | Some col \<Rightarrow> Inr col)"

text \<open>\<open>df[c] = col\<close>: replaces the column named c where it stands, or appends it.\<close>

definition setitem :: "dataframe \<Rightarrow> string \<Rightarrow> column \<Rightarrow> dataframe" where
  "setitem df c col =
     (if c \<in> set (columns df)
      then df\<lparr>cols := map (\<lambda>(n, old). if n = c then (n, col) else (n, old)) (cols df)\<rparr>
      else df\<lparr>cols := cols df @ [(c, col)]\<rparr>)"

text \<open>\<open>df.drop(columns=names)\<close>: KeyError on a name that is no column.\<close>

definition drop_columns :: "dataframe \<Rightarrow> string list \<Rightarrow> exn + dataframe" where
  "drop_columns df names =
     (case filter (\<lambda>n. n \<notin> set (columns df)) names of
        [] \<Rightarrow> Inr (df\<lparr>cols := filter (\<lambda>(n, c). n \<notin> set names) (cols df)\<rparr>)
      | n # _ \<Rightarrow> Inl (KeyError n))"

text \<open>Boolean-mask row selection \<open>df[m]\<close>: the rows keep their labels.\<close>

definition select :: "bool list \<Rightarrow> 'a list \<Rightarrow> 'a list" where
  "select keep xs = map snd (filter fst (zip keep xs))"

fun col_select :: "bool list \<Rightarrow> column \<Rightarrow> column" where
  "col_select keep (FloatCol xs) = FloatCol (select keep xs)"
| "col_select keep (BoolCol xs) = BoolCol (select keep xs)"
| "col_select keep (ObjCol xs) = ObjCol (select keep xs)"
| "col_select keep (CatCol cats xs) = CatCol cats (select keep xs)"

definition df_select :: "dataframe \<Rightarrow> bool list \<Rightarrow> dataframe" where
  "df_select df keep =
     \<lparr>index = select keep (index df),
      cols = map (\<lambda>(n, c). (n, col_select keep c)) (cols df)\<rparr>"

text \<open>\<open>reset_index(drop=True)\<close>: the labels become \<open>0..n-1\<close>.\<close>

definition reset_index :: "dataframe \<Rightarrow> dataframe" where
  "reset_index df = df\<lparr>index := [0..<length (index df)]\<rparr>"

section \<open>pandas: cut, get\_dummies, quantile\<close>

text \<open>
  \<open>pd.cut(x, bins, labels)\<close> with its defaults \<open>right=True\<close> and
  \<open>include_lowest=False\<close>: the position of a value is \<open>bins.searchsorted(x,
  side='left')\<close>, the number of edges strictly below it; position 0 and position
  \<open>len(bins)\<close> are outside every bin and give no category, as does NaN. A boolean
  column is read as 0/1; other dtypes raise TypeError.
\<close>

definition searchsorted_left :: "real list \<Rightarrow> real \<Rightarrow> nat" where
  "searchsorted_left bins x = length (takeWhile (\<lambda>b. b < x) bins)"

definition cut_value :: "real list \<Rightarrow> string list \<Rightarrow> fl \<Rightarrow> string option" where
  "cut_value bins labels v =
     (case v of
        NaN \<Rightarrow> None
      | Num x \<Rightarrow>
          (let ids = searchsorted_left bins x
           in if ids = 0 \<or> ids = length bins then None
              else Some (labels ! (ids - 1))))"

fun pd_cut :: "column \<Rightarrow> real list \<Rightarrow> string list \<Rightarrow> exn + column" where
  "pd_cut (FloatCol xs) bins labels =
     Inr (CatCol labels (map (cut_value bins labels) xs))"
| "pd_cut (BoolCol bs) bins labels =
     Inr (CatCol labels (map (\<lambda>b. cut_value bins labels (Num (if b then 1 else 0))) bs))"
| "pd_cut _ bins labels = Inl TypeError"

text \<open>
  \<open>pd.get_dummies(df, columns=[c], prefix=p)\<close> on a categorical column: the column
  is removed and one boolean column \<open>p_cat\<close> per category is appended, in the order of
  the categories; a row without category is False everywhere. The program only ever
  encodes the categorical column it has just made; other dtypes are outside the model
  and give TypeError here.
\<close>

definition get_dummies :: "dataframe \<Rightarrow> string \<Rightarrow> string \<Rightarrow> exn + dataframe" where
  "get_dummies df c prefix =
     (case getitem df c of
        Inl e \<Rightarrow> Inl e
      | Inr (CatCol cats vs) \<Rightarrow>
          Inr (df\<lparr>cols := filter (\<lambda>(n, col). n \<noteq> c) (cols df) @
                 map (\<lambda>cat. (prefix @ ''_'' @ cat, BoolCol (map (\<lambda>v. v = Some cat) vs))) cats\<rparr>)
      | Inr _ \<Rightarrow> Inl TypeError)"

text \<open>
  \<open>Series.quantile(q)\<close>, linear interpolation: NaN cells are left out; of the n sorted
  values, the virtual position is \<open>(n-1)*q\<close>, and the result interpolates between its
  two neighbours. No values at all give NaN.
\<close>

definition finite_values :: "fl list \<Rightarrow> real list" where
  "finite_values xs = concat (map (\<lambda>v. case v of Num r \<Rightarrow> [r] | NaN \<Rightarrow> []) xs)"

definition quantile :: "fl list \<Rightarrow> real \<Rightarrow> fl" where
  "quantile xs q =
     (let vs = sort (finite_values xs);
          n = length vs
      in if n = 0 then NaN
         else (let h = (real n - 1) * q;
                   lo = nat \<lfloor>h\<rfloor>;
                   hi = min (lo + 1) (n - 1);
                   g = h - real lo
               in Num (vs ! lo + g * (vs ! hi - vs ! lo))))"

section \<open>Console and files\<close>

text \<open>
  Each \<open>print\<close> of the program is one message; the fields are the values the f-string
  interpolates. \<open>level_of\<close> is the bracketed tag the text starts with; the two banner lines
  have none.
\<close>

datatype msg =
    MsgStart
  | MsgLocalFound string
  | MsgInitialSize "nat \<times> nat"
  | MsgReadFailed exn
  | MsgNotFound string
  | MsgDownloaded string
  | MsgDownloadFailed exn
  | MsgOutlier string int
  | MsgSaved
  | MsgTrainSize "nat \<times> nat"
  | MsgTestSize "nat \<times> nat"
  | MsgDone

datatype level = INFO | WARNING | ERROR | Banner

fun level_of :: "msg \<Rightarrow> level" where
  "level_of MsgStart = Banner"
| "level_of (MsgLocalFound f) = INFO"
| "level_of (MsgInitialSize sh) = INFO"
| "level_of (MsgReadFailed e) = ERROR"
| "level_of (MsgNotFound f) = WARNING"
| "level_of (MsgDownloaded f) = INFO"
| "level_of (MsgDownloadFailed e) = ERROR"
| "level_of (MsgOutlier c n) = INFO"
| "level_of MsgSaved = INFO"
| "level_of (MsgTrainSize sh) = INFO"
| "level_of (MsgTestSize sh) = INFO"
| "level_of MsgDone = Banner"

text \<open>What a run has printed and the files it has written, oldest first.\<close>

record io =
  stdout :: "msg list"
  written :: "(string \<times> dataframe) list"

definition print :: "msg \<Rightarrow> io \<Rightarrow> io" where
  "print m s = s\<lparr>stdout := stdout s @ [m]\<rparr>"

text \<open>
  What the run finds outside the process: whether the local file is there, what reading
  it and reading the URL give, and whether each \<open>to_csv\<close> fails.
\<close>

record env =
  local_exists :: bool
  read_local :: "exn + dataframe"
  read_remote :: "exn + dataframe"
  write_cache :: "exn option"
  write_train :: "exn option"
  write_test :: "exn option"

definition to_csv :: "exn option \<Rightarrow> string \<Rightarrow> dataframe \<Rightarrow> io \<Rightarrow> (exn + unit) \<times> io" where
  "to_csv outcome path df s =
     (case outcome of
        Some e \<Rightarrow> (Inl e, s)
      | None \<Rightarrow> (Inr (), s\<lparr>written := written s @ [(path, df)]\<rparr>))"

section \<open>load\_data\<close>

definition filename :: string where
  "filename = ''heart_failure_raw.csv''"

definition load_data :: "env \<Rightarrow> io \<Rightarrow> (exn + dataframe option) \<times> io" where
  "load_data ev s =
     (if local_exists ev then
        (case read_local ev of
           Inr df \<Rightarrow>
             (Inr (Some df), print (MsgInitialSize (shape df)) (print (MsgLocalFound filename) s))
         | Inl e \<Rightarrow>
             (if is_Exception e then (Inr None, print (MsgReadFailed e) s)
              else (Inl e, s)))
      else
        (let s1 = print (MsgNotFound filename) s
         in case read_remote ev of
              Inl e \<Rightarrow>
                (if is_Exception e then (Inr None, print (MsgDownloadFailed e) s1)
                 else (Inl e, s1))
            | Inr df \<Rightarrow>
                (case to_csv (write_cache ev) filename df s1 of
                   (Inl e, s2) \<Rightarrow>
                     (if is_Exception e then (Inr None, print (MsgDownloadFailed e) s2)
                      else (Inl e, s2))
                 | (Inr u, s2) \<Rightarrow>
                     (Inr (Some df), print (MsgDownloaded filename) s2))))"

section \<open>handle\_outliers\<close>

text \<open>
  The quartiles and the two comparisons are those of a float column; on a boolean, text
  or categorical column the model raises TypeError. The quartiles and the bounds are
  computed here in exact arithmetic, where the program computes them in float64: a cell
  that lies on a bound, or within a rounding error of it, can be kept by one and dropped
  by the other. What is proved below about this function holds whatever the bounds are.
\<close>

definition handle_outliers :: "dataframe \<Rightarrow> string \<Rightarrow> io \<Rightarrow> (exn + dataframe) \<times> io" where
  "handle_outliers df column s =
     (case getitem df column of
        Inl e \<Rightarrow> (Inl e, s)
      | Inr (FloatCol xs) \<Rightarrow>
          (let Q1 = quantile xs (25 / 100);
               Q3 = quantile xs (75 / 100);
               IQR = fl_sub Q3 Q1;
               lower_bound = fl_sub Q1 (fl_mul (Num (15 / 10)) IQR);
               upper_bound = fl_add Q3 (fl_mul (Num (15 / 10)) IQR);
               initial_count = fst (shape df);
               df_clean = df_select df (map (\<lambda>v. fl_ge v lower_bound \<and> fl_le v upper_bound) xs);
               final_count = fst (shape df_clean)
           in (Inr (reset_index df_clean),
               print (MsgOutlier column (int initial_count - int final_count)) s))
      | Inr _ \<Rightarrow> (Inl TypeError, s))"

section \<open>preprocess\_data\<close>

definition bins :: "real list" where
  "bins = [0, 60, 75, 120]"

definition labels :: "string list" where
  "labels = [''Adult'', ''Senior'', ''Elderly'']"

text \<open>Step 1: drop \<open>time\<close> when it is a column.\<close>

definition drop_time :: "dataframe \<Rightarrow> exn + dataframe" where
  "drop_time df =
     (if ''time'' \<in> set (columns df) then drop_columns df [''time''] else Inr df)"

text \<open>Step 2: \<open>df['age_category'] = pd.cut(df['age'], bins=bins, labels=labels)\<close>.\<close>

definition bin_age :: "dataframe \<Rightarrow> exn + dataframe" where
  "bin_age df =
     (case getitem df ''age'' of
        Inl e \<Rightarrow> Inl e
      | Inr age \<Rightarrow>
          (case pd_cut age bins labels of
             Inl e \<Rightarrow> Inl e
           | Inr cat \<Rightarrow> Inr (setitem df ''age_category'' cat)))"

text \<open>Step 5: the features are every column but the target, the target is \<open>DEATH_EVENT\<close>.\<close>

definition split_target :: "dataframe \<Rightarrow> exn + dataframe \<times> series" where
  "split_target df =
     (case drop_columns df [''DEATH_EVENT''] of
        Inl e \<Rightarrow> Inl e
      | Inr X \<Rightarrow>
          (case getitem df ''DEATH_EVENT'' of
             Inl e \<Rightarrow> Inl e
           | Inr y \<Rightarrow> Inr (X, \<lparr>sname = ''DEATH_EVENT'', sindex = index df, svalues = y\<rparr>)))"

definition preprocess_data :: "dataframe \<Rightarrow> io \<Rightarrow> (exn + dataframe \<times> series) \<times> io" where
  "preprocess_data df s =
     (case drop_time df of
        Inl e \<Rightarrow> (Inl e, s)
      | Inr df1 \<Rightarrow>
          (case bin_age df1 of
             Inl e \<Rightarrow> (Inl e, s)
           | Inr df2 \<Rightarrow>
               (case get_dummies df2 ''age_category'' ''age'' of
                  Inl e \<Rightarrow> (Inl e, s)
                | Inr df3 \<Rightarrow>
                    (case handle_outliers df3 ''serum_creatinine'' s of
                       (Inl e, s1) \<Rightarrow> (Inl e, s1)
                     | (Inr df4, s1) \<Rightarrow>
                         (case split_target df4 of
                            Inl e \<Rightarrow> (Inl e, s1)
                          | Inr Xy \<Rightarrow> (Inr Xy, s1))))))"

section \<open>save\_prepared\_data\<close>

text \<open>
  \<open>train_test_split\<close> is sklearn's; its shuffle is drawn from numpy's generator seeded
  with \<open>random_state\<close>. The model takes it as a parameter: from X, y, \<open>test_size\<close>,
  \<open>random_state\<close> and \<open>stratify\<close> it raises or gives the row positions of the
  training and of the testing subset.
\<close>

type_synonym splitter =
  "dataframe \<Rightarrow> series \<Rightarrow> real \<Rightarrow> nat \<Rightarrow> series \<Rightarrow> exn + nat list \<times> nat list"

definition take_rows :: "nat list \<Rightarrow> 'a list \<Rightarrow> 'a list" where
  "take_rows ps xs = map (\<lambda>p. xs ! p) (filter (\<lambda>p. p < length xs) ps)"

fun col_take :: "nat list \<Rightarrow> column \<Rightarrow> column" where
  "col_take ps (FloatCol xs) = FloatCol (take_rows ps xs)"
| "col_take ps (BoolCol xs) = BoolCol (take_rows ps xs)"
| "col_take ps (ObjCol xs) = ObjCol (take_rows ps xs)"
| "col_take ps (CatCol cats xs) = CatCol cats (take_rows ps xs)"

definition df_take :: "dataframe \<Rightarrow> nat list \<Rightarrow> dataframe" where
  "df_take df ps =
     \<lparr>index = take_rows ps (index df),
      cols = map (\<lambda>(n, c). (n, col_take ps c)) (cols df)\<rparr>"

definition series_take :: "series \<Rightarrow> nat list \<Rightarrow> series" where
  "series_take y ps =
     y\<lparr>sindex := take_rows ps (sindex y), svalues := col_take ps (svalues y)\<rparr>"

text \<open>
  sklearn's \<open>StandardScaler\<close>. The frame is converted to a float array, one list per
  column: booleans become 0/1, text is a ValueError, and so is a frame without rows or
  without columns. Mean and variance of a column leave NaN cells out; the scale is the
  square root of the population variance, and a scale of 0 is replaced by 1.
\<close>

fun to_float :: "column \<Rightarrow> exn + fl list" where
  "to_float (FloatCol xs) = Inr xs"
| "to_float (BoolCol bs) = Inr (map (\<lambda>b. Num (if b then 1 else 0)) bs)"
| "to_float _ = Inl ValueError"

fun collect :: "(exn + 'a) list \<Rightarrow> exn + 'a list" where
  "collect [] = Inr []"
| "collect (r # rs) =
     (case r of
        Inl e \<Rightarrow> Inl e
      | Inr x \<Rightarrow> (case collect rs of Inl e \<Rightarrow> Inl e | Inr xs \<Rightarrow> Inr (x # xs)))"

definition check_array :: "dataframe \<Rightarrow> exn + fl list list" where
  "check_array X =
     (if length (index X) = 0 \<or> length (cols X) = 0 then Inl ValueError
      else collect (map (\<lambda>(n, c). to_float c) (cols X)))"

definition nanmean :: "fl list \<Rightarrow> fl" where
  "nanmean xs =
     (let vs = finite_values xs
      in if vs = [] then NaN else Num (sum_list vs / real (length vs)))"

definition nanvar :: "fl list \<Rightarrow> fl" where
  "nanvar xs =
     (let vs = finite_values xs
      in if vs = [] then NaN
         else (let m = sum_list vs / real (length vs)
               in Num (sum_list (map (\<lambda>v. (v - m) ^ 2) vs) / real (length vs))))"

fun handle_zeros_in_scale :: "fl \<Rightarrow> fl" where
  "handle_zeros_in_scale (Num s) = (if s = 0 then Num 1 else Num s)"
| "handle_zeros_in_scale NaN = NaN"

fun fl_sqrt :: "fl \<Rightarrow> fl" where
  "fl_sqrt (Num a) = Num (sqrt a)"
| "fl_sqrt NaN = NaN"

text \<open>The fitted attributes \<open>mean_\<close> and \<open>scale_\<close>, one entry per column.\<close>

record scaler =
  sc_mean :: "fl list"
  sc_scale :: "fl list"

definition fit :: "dataframe \<Rightarrow> exn + scaler" where
  "fit X =
     (case check_array X of
        Inl e \<Rightarrow> Inl e
      | Inr cs \<Rightarrow>
          Inr \<lparr>sc_mean = map nanmean cs,
               sc_scale = map (\<lambda>c. handle_zeros_in_scale (fl_sqrt (nanvar c))) cs\<rparr>)"

fun scale_cell :: "fl \<Rightarrow> fl \<Rightarrow> fl \<Rightarrow> fl" where
  "scale_cell (Num m) (Num s) (Num x) = Num ((x - m) / s)"
| "scale_cell _ _ _ = NaN"

definition transform :: "scaler \<Rightarrow> dataframe \<Rightarrow> exn + fl list list" where
  "transform sc X =
     (case check_array X of
        Inl e \<Rightarrow> Inl e
      | Inr cs \<Rightarrow>
          (if length cs \<noteq> length (sc_mean sc) then Inl ValueError
           else Inr (map (\<lambda>(c, m, s). map (scale_cell m s) c)
                       (zip cs (zip (sc_mean sc) (sc_scale sc))))))"

text \<open>
  \<open>pd.DataFrame(array, columns=columns)\<close> labels the n rows \<open>0..n-1\<close>;
  \<open>pd.concat([X, y.reset_index(drop=True)], axis=1)\<close> puts the target after the
  features, both labelled \<open>0..n-1\<close> (X and y come from one frame and one split).
\<close>

definition DataFrame :: "fl list list \<Rightarrow> string list \<Rightarrow> nat \<Rightarrow> dataframe" where
  "DataFrame arr names n = \<lparr>index = [0..<n], cols = zip names (map FloatCol arr)\<rparr>"

definition concat_axis1 :: "dataframe \<Rightarrow> series \<Rightarrow> dataframe" where
  "concat_axis1 df y = df\<lparr>cols := cols df @ [(sname y, svalues y)]\<rparr>"

definition save_prepared_data ::
  "splitter \<Rightarrow> env \<Rightarrow> dataframe \<Rightarrow> series \<Rightarrow> io \<Rightarrow> (exn + unit) \<times> io" where
  "save_prepared_data train_test_split ev X y s =
     (case train_test_split X y (2 / 10) 42 y of
        Inl e \<Rightarrow> (Inl e, s)
      | Inr (train, test) \<Rightarrow>
          (let X_train = df_take X train; X_test = df_take X test;
               y_train = series_take y train; y_test = series_take y test
           in case fit X_train of
                Inl e \<Rightarrow> (Inl e, s)
              | Inr sc \<Rightarrow>
                  (case transform sc X_train of
                     Inl e \<Rightarrow> (Inl e, s)
                   | Inr X_train_scaled \<Rightarrow>
                       (case transform sc X_test of
                          Inl e \<Rightarrow> (Inl e, s)
                        | Inr X_test_scaled \<Rightarrow>
                            (let X_train_final =
                                   DataFrame X_train_scaled (columns X) (length (index X_train));
                                 X_test_final =
                                   DataFrame X_test_scaled (columns X) (length (index X_test));
                                 train_set = concat_axis1 X_train_final y_train;
                                 test_set = concat_axis1 X_test_final y_test
                             in case to_csv (write_train ev) ''data_train.csv'' train_set s of
                                  (Inl e, s1) \<Rightarrow> (Inl e, s1)
                                | (Inr u, s1) \<Rightarrow>
                                    (case to_csv (write_test ev) ''data_test.csv'' test_set s1 of
                                       (Inl e, s2) \<Rightarrow> (Inl e, s2)
                                     | (Inr u, s2) \<Rightarrow>
                                         (Inr (),
                                          print (MsgTestSize (shape test_set))
                                            (print (MsgTrainSize (shape train_set))
                                               (print MsgSaved s2)))))))))"

section \<open>The script\<close>

definition main :: "splitter \<Rightarrow> env \<Rightarrow> (exn + unit) \<times> io" where
  "main train_test_split ev =
     (case load_data ev (print MsgStart \<lparr>stdout = [], written = []\<rparr>) of
        (Inl e, s) \<Rightarrow> (Inl e, s)
      | (Inr None, s) \<Rightarrow> (Inr (), print MsgDone s)
      | (Inr (Some df), s) \<Rightarrow>
          (case preprocess_data df s of
             (Inl e, s1) \<Rightarrow> (Inl e, s1)
           | (Inr (X, y), s1) \<Rightarrow>
               (case save_prepared_data train_test_split ev X y s1 of
                  (Inl e, s2) \<Rightarrow> (Inl e, s2)
                | (Inr u, s2) \<Rightarrow> (Inr (), print MsgDone s2))))"

section \<open>Frame lemmas\<close>

lemma map_of_replace:
  "c \<in> fst ` set xs \<Longrightarrow>
   map_of (map (\<lambda>(n, old). if n = c then (n, col) else (n, old)) xs) c = Some col"
proof (induction xs)
  case Nil
  then show ?case by simp
next
  case (Cons p xs)
  obtain n old where p: "p = (n, old)" by (cases p)
  show ?case
  proof (cases "n = c")
    case True
    with p show ?thesis by simp
  next
    case False
    with p Cons show ?thesis by simp
  qed
qed

lemma getitem_setitem: "getitem (setitem df c col) c = Inr col"
proof (cases "c \<in> set (columns df)")
  case True
  then show ?thesis
    by (simp add: getitem_def setitem_def columns_def map_of_replace)
next
  case False
  then have "map_of (cols df) c = None"
    by (simp add: columns_def map_of_eq_None_iff)
  with False show ?thesis
    by (simp add: getitem_def setitem_def map_add_def)
qed

section \<open>Age bucketing\<close>

lemma cut_value_bins:
  "cut_value bins labels (Num x) =
     (if 0 < x \<and> x \<le> 60 then Some ''Adult''
      else if 60 < x \<and> x \<le> 75 then Some ''Senior''
      else if 75 < x \<and> x \<le> 120 then Some ''Elderly''
      else None)"
  by (simp add: cut_value_def bins_def labels_def searchsorted_left_def)

lemma bin_age_float:
  assumes "getitem df ''age'' = Inr (FloatCol xs)"
  shows "bin_age df = Inr (setitem df ''age_category'' (CatCol labels (map (cut_value bins labels) xs)))"
  using assms by (simp add: bin_age_def)

text \<open>
  C1 (as amended). On a float age column, step 2 of \<open>preprocess_data\<close> gives every
  row the category of the right-closed range its age lies in: (0, 60] is Adult, (60, 75]
  is Senior, (75, 120] is Elderly; an age of 0 or below, an age above 120 and a missing age
  get no category. So 60 is Adult and 75 is Senior, and 0 is not bucketed.
\<close>

theorem age_bins_right_closed:
  assumes "getitem df ''age'' = Inr (FloatCol xs)"
  shows "\<exists>df'. bin_age df = Inr df' \<and>
           getitem df' ''age_category'' =
             Inr (CatCol [''Adult'', ''Senior'', ''Elderly'']
                    (map (\<lambda>v. case v of
                                 NaN \<Rightarrow> None
                               | Num x \<Rightarrow>
                                   (if 0 < x \<and> x \<le> 60 then Some ''Adult''
                                    else if 60 < x \<and> x \<le> 75 then Some ''Senior''
                                    else if 75 < x \<and> x \<le> 120 then Some ''Elderly''
                                    else None)) xs))"
proof -
  have "cut_value bins labels v =
          (case v of NaN \<Rightarrow> None
           | Num x \<Rightarrow> (if 0 < x \<and> x \<le> 60 then Some ''Adult''
                        else if 60 < x \<and> x \<le> 75 then Some ''Senior''
                        else if 75 < x \<and> x \<le> 120 then Some ''Elderly''
                        else None))" for v
    by (cases v) (simp_all add: cut_value_bins, simp add: cut_value_def)
  then have "map (cut_value bins labels) xs = map (\<lambda>v. case v of
                                 NaN \<Rightarrow> None
                               | Num x \<Rightarrow>
                                   (if 0 < x \<and> x \<le> 60 then Some ''Adult''
                                    else if 60 < x \<and> x \<le> 75 then Some ''Senior''
                                    else if 75 < x \<and> x \<le> 120 then Some ''Elderly''
                                    else None)) xs"
    by simp
  then show ?thesis
    using bin_age_float [OF assms] by (simp add: getitem_setitem labels_def)
qed

text \<open>The ages 0, 60, 75 and 121 in one frame.\<close>

theorem age_bins_right_closed_witness:
  "\<exists>df'. bin_age \<lparr>index = [0, 1, 2, 3], cols = [(''age'', FloatCol [Num 0, Num 60, Num 75, Num 121])]\<rparr> = Inr df' \<and>
     getitem df' ''age_category'' =
       Inr (CatCol [''Adult'', ''Senior'', ''Elderly''] [None, Some ''Adult'', Some ''Senior'', None])"
  using age_bins_right_closed [of "\<lparr>index = [0, 1, 2, 3], cols = [(''age'', FloatCol [Num 0, Num 60, Num 75, Num 121])]\<rparr>" "[Num 0, Num 60, Num 75, Num 121]"]
  by (simp add: getitem_def)

text \<open>
  C1 as stated reads the ranges as half-open on the right, which would bucket the ages
  0, 60 and 75 as Adult, Senior and Elderly. The program gives them nothing, Adult and
  Senior.
\<close>

theorem age_bins_half_open_counterexample:
  "bin_age \<lparr>index = [0, 1, 2], cols = [(''age'', FloatCol [Num 0, Num 60, Num 75])]\<rparr> =
     Inr \<lparr>index = [0, 1, 2],
          cols = [(''age'', FloatCol [Num 0, Num 60, Num 75]),
                  (''age_category'', CatCol labels [None, Some ''Adult'', Some ''Senior''])]\<rparr>
   \<and> [None, Some ''Adult'', Some ''Senior''] \<noteq> [Some ''Adult'', Some ''Senior'', Some ''Elderly'']"
  by (simp add: bin_age_def getitem_def setitem_def columns_def cut_value_def bins_def
        labels_def searchsorted_left_def)

text \<open>
  C2. In the age bucketing of \<open>preprocess_data\<close>, a row whose age is exactly 60 is
  bucketed as Adult and a row whose age is 61 as Senior.
\<close>

theorem age_60_adult_61_senior:
  assumes "getitem df ''age'' = Inr (FloatCol xs)" and "i < length xs"
  shows "\<exists>df' cs. bin_age df = Inr df' \<and>
           getitem df' ''age_category'' = Inr (CatCol labels cs) \<and>
           length cs = length xs \<and>
           (xs ! i = Num 60 \<longrightarrow> cs ! i = Some ''Adult'') \<and>
           (xs ! i = Num 61 \<longrightarrow> cs ! i = Some ''Senior'')"
  using assms bin_age_float [OF assms(1)]
  by (auto simp: getitem_setitem cut_value_bins)

text \<open>A frame with the ages 60 and 61.\<close>

theorem age_60_adult_61_senior_witness:
  "\<exists>df' cs. bin_age \<lparr>index = [0, 1], cols = [(''age'', FloatCol [Num 60, Num 61])]\<rparr> = Inr df' \<and>
     getitem df' ''age_category'' = Inr (CatCol labels cs) \<and>
     cs ! 0 = Some ''Adult'' \<and> cs ! 1 = Some ''Senior''"
proof -
  let ?df = "\<lparr>index = [0, 1], cols = [(''age'', FloatCol [Num 60, Num 61])]\<rparr>"
  have g: "getitem ?df ''age'' = Inr (FloatCol [Num 60, Num 61])"
    by (simp add: getitem_def)
  from age_60_adult_61_senior [OF g, of 0] age_60_adult_61_senior [OF g, of 1]
  show ?thesis by auto
qed

section \<open>The outlier filter\<close>

lemma select_map_filter: "select (map P xs) xs = filter P xs"
  by (induction xs) (simp_all add: select_def)

lemma getitem_df_select:
  "getitem (df_select df keep) c = map_sum id (col_select keep) (getitem df c)"
  by (simp add: getitem_def df_select_def map_of_map split: option.splits)

lemma getitem_reset_index [simp]: "getitem (reset_index df) c = getitem df c"
  by (simp add: getitem_def reset_index_def)

lemma fl_ge_le: "fl_ge v b = fl_le b v"
  by (cases v; cases b) auto

lemma handle_outliers_Inr:
  assumes "handle_outliers df c s = (Inr out, s')"
  shows "\<exists>xs. getitem df c = Inr (FloatCol xs) \<and>
           out = reset_index (df_select df
                   (map (\<lambda>v. fl_le (fl_sub (quantile xs (25 / 100))
                                  (fl_mul (Num (15 / 10)) (fl_sub (quantile xs (75 / 100)) (quantile xs (25 / 100))))) v \<and>
                               fl_le v (fl_add (quantile xs (75 / 100))
                                  (fl_mul (Num (15 / 10)) (fl_sub (quantile xs (75 / 100)) (quantile xs (25 / 100)))))) xs))"
  using assms
  by (auto simp: handle_outliers_def Let_def fl_ge_le split: sum.splits column.splits)

text \<open>
  C9. When \<open>handle_outliers\<close> returns a frame, it is the input restricted by a mask
  that is False at every row whose cell in column c is NaN, so the column c of the result
  holds no NaN.
\<close>

theorem outlier_filter_drops_missing:
  assumes "handle_outliers df c s = (Inr out, s')"
  shows "\<exists>xs keep ys.
           getitem df c = Inr (FloatCol xs) \<and>
           length keep = length xs \<and>
           out = reset_index (df_select df keep) \<and>
           (\<forall>i < length xs. xs ! i = NaN \<longrightarrow> \<not> keep ! i) \<and>
           getitem out c = Inr (FloatCol ys) \<and>
           ys = select keep xs \<and>
           NaN \<notin> set ys"
proof -
  let ?P = "\<lambda>xs v. fl_le (fl_sub (quantile xs (25 / 100))
                                  (fl_mul (Num (15 / 10)) (fl_sub (quantile xs (75 / 100)) (quantile xs (25 / 100))))) v \<and>
                               fl_le v (fl_add (quantile xs (75 / 100))
                                  (fl_mul (Num (15 / 10)) (fl_sub (quantile xs (75 / 100)) (quantile xs (25 / 100)))))"
  from handle_outliers_Inr [OF assms] obtain xs where
    g: "getitem df c = Inr (FloatCol xs)" and
    out: "out = reset_index (df_select df (map (?P xs) xs))"
    by blast
  have nan: "\<not> ?P xs NaN"
    by simp
  have 1: "\<forall>i < length xs. xs ! i = NaN \<longrightarrow> \<not> map (?P xs) xs ! i"
    by simp
  have 2: "getitem out c = Inr (FloatCol (select (map (?P xs) xs) xs))"
    using g by (simp add: out getitem_df_select)
  have 3: "NaN \<notin> set (select (map (?P xs) xs) xs)"
    unfolding select_map_filter by simp
  have 4: "length (map (?P xs) xs) = length xs"
    by simp
  from g 4 out 1 2 3 show ?thesis
    by blast
qed

text \<open>Three rows, the middle one without a value.\<close>

theorem outlier_filter_drops_missing_witness:
  "handle_outliers
     \<lparr>index = [0, 1, 2],
      cols = [(''serum_creatinine'', FloatCol [Num 1, NaN, Num 2]),
              (''age'', FloatCol [Num 50, Num 60, Num 70])]\<rparr>
     ''serum_creatinine'' \<lparr>stdout = [], written = []\<rparr> =
     (Inr \<lparr>index = [0, 1],
           cols = [(''serum_creatinine'', FloatCol [Num 1, Num 2]),
                   (''age'', FloatCol [Num 50, Num 70])]\<rparr>,
      \<lparr>stdout = [MsgOutlier ''serum_creatinine'' 1], written = []\<rparr>)
   \<and> NaN \<notin> set [Num 1, Num 2]"
proof -
  let ?df = "\<lparr>index = [0, 1, 2],
      cols = [(''serum_creatinine'', FloatCol [Num 1, NaN, Num 2]),
              (''age'', FloatCol [Num 50, Num 60, Num 70])]\<rparr>"
  let ?out = "\<lparr>index = [0, 1],
           cols = [(''serum_creatinine'', FloatCol [Num 1, Num 2]),
                   (''age'', FloatCol [Num 50, Num 70])]\<rparr>"
  have h: "handle_outliers ?df ''serum_creatinine'' \<lparr>stdout = [], written = []\<rparr> =
             (Inr ?out, \<lparr>stdout = [MsgOutlier ''serum_creatinine'' 1], written = []\<rparr>)"
    by (simp add: handle_outliers_def getitem_def quantile_def finite_values_def Let_def
          shape_def df_select_def select_def reset_index_def print_def)
  have g: "getitem ?out ''serum_creatinine'' = Inr (FloatCol [Num 1, Num 2])"
    by (simp add: getitem_def)
  from outlier_filter_drops_missing [OF h] obtain ys where
    ys: "getitem ?out ''serum_creatinine'' = Inr (FloatCol ys)" and
    n: "NaN \<notin> set ys"
    by blast
  from ys g have "ys = [Num 1, Num 2]"
    by simp
  with n have "NaN \<notin> set [Num 1, Num 2]"
    by simp
  with h outlier_filter_drops_missing [OF h] show ?thesis
    by - (rule conjI, assumption+)
qed

section \<open>The loader and the script\<close>

lemma load_data_result:
  assumes "\<forall>e. read_local ev = Inl e \<longrightarrow> is_Exception e"
    and "\<forall>e. read_remote ev = Inl e \<longrightarrow> is_Exception e"
    and "\<forall>e. write_cache ev = Some e \<longrightarrow> is_Exception e"
  shows "fst (load_data ev s) =
           Inr (if local_exists ev
                then (case read_local ev of Inl e \<Rightarrow> None | Inr df \<Rightarrow> Some df)
                else (case read_remote ev of
                        Inl e \<Rightarrow> None
                      | Inr df \<Rightarrow> (case write_cache ev of Some e \<Rightarrow> None | None \<Rightarrow> Some df)))"
  using assms
  by (auto simp: load_data_def to_csv_def Let_def split: sum.splits option.splits)

text \<open>
  C4. Whether the local file is there or not, and whatever reading it, fetching the URL
  and writing the cache copy do, as long as what they raise is an \<open>Exception\<close> (as
  every read, parse and network error is), \<open>load_data\<close> returns: the dataset when
  the read on its path (and, after a fetch, the cache write) succeeded, and the null
  result otherwise. It raises nothing.
\<close>

theorem load_data_never_raises:
  assumes "\<forall>e. read_local ev = Inl e \<longrightarrow> is_Exception e"
    and "\<forall>e. read_remote ev = Inl e \<longrightarrow> is_Exception e"
    and "\<forall>e. write_cache ev = Some e \<longrightarrow> is_Exception e"
  shows "\<exists>r s'. load_data ev s = (Inr r, s') \<and>
           r = (if local_exists ev
                then (case read_local ev of Inl e \<Rightarrow> None | Inr df \<Rightarrow> Some df)
                else (case read_remote ev of
                        Inl e \<Rightarrow> None
                      | Inr df \<Rightarrow> (case write_cache ev of Some e \<Rightarrow> None | None \<Rightarrow> Some df)))"
  using load_data_result [OF assms, of s]
  by (cases "load_data ev s") simp

text \<open>A local file that does not parse.\<close>

theorem load_data_never_raises_witness:
  "\<exists>s'. load_data
     \<lparr>local_exists = True, read_local = Inl ParserError, read_remote = Inl URLError,
      write_cache = Some OSError, write_train = None, write_test = None\<rparr>
     \<lparr>stdout = [], written = []\<rparr> = (Inr None, s')"
  using load_data_never_raises [of
     "\<lparr>local_exists = True, read_local = Inl ParserError, read_remote = Inl URLError,
      write_cache = Some OSError, write_train = None, write_test = None\<rparr>"
     "\<lparr>stdout = [], written = []\<rparr>"]
  by (simp add: is_Exception_def)

lemma load_data_cache_write_fails:
  assumes "\<not> local_exists ev" and "read_remote ev = Inr df" and "write_cache ev = Some e"
    and "is_Exception e"
  shows "load_data ev s = (Inr None, print (MsgDownloadFailed e) (print (MsgNotFound filename) s))"
  using assms by (simp add: load_data_def to_csv_def Let_def)

text \<open>
  C10. With no local file, a fetch that succeeds and a cache write that fails,
  \<open>load_data\<close> returns the null result after the warning and the download-failed
  message; the fetched dataset is dropped, and the script ends without running the later
  stages and without writing a file.
\<close>

theorem cache_write_failure_masks_fetch:
  assumes "\<not> local_exists ev" and "read_remote ev = Inr df" and "write_cache ev = Some e"
    and "is_Exception e"
  shows "load_data ev s = (Inr None, print (MsgDownloadFailed e) (print (MsgNotFound filename) s)) \<and>
         main train_test_split ev =
           (Inr (), \<lparr>stdout = [MsgStart, MsgNotFound filename, MsgDownloadFailed e, MsgDone],
                     written = []\<rparr>)"
  using assms
  by (simp add: load_data_cache_write_fails main_def print_def)

text \<open>A fetch of one row whose cache copy cannot be written.\<close>

theorem cache_write_failure_masks_fetch_witness:
  "load_data
     \<lparr>local_exists = False, read_local = Inl OSError,
      read_remote = Inr \<lparr>index = [0], cols = [(''age'', FloatCol [Num 60])]\<rparr>,
      write_cache = Some OSError, write_train = None, write_test = None\<rparr>
     \<lparr>stdout = [], written = []\<rparr> =
     (Inr None, \<lparr>stdout = [MsgNotFound ''heart_failure_raw.csv'', MsgDownloadFailed OSError],
                 written = []\<rparr>)"
  using cache_write_failure_masks_fetch [of
     "\<lparr>local_exists = False, read_local = Inl OSError,
      read_remote = Inr \<lparr>index = [0], cols = [(''age'', FloatCol [Num 60])]\<rparr>,
      write_cache = Some OSError, write_train = None, write_test = None\<rparr>"
     "\<lparr>index = [0], cols = [(''age'', FloatCol [Num 60])]\<rparr>" OSError
     "\<lparr>stdout = [], written = []\<rparr>"]
  by (simp add: is_Exception_def print_def filename_def)

lemma load_data_written:
  "load_data ev s = (Inr None, s') \<Longrightarrow> written s' = written s"
  by (auto simp: load_data_def to_csv_def Let_def print_def split: sum.splits option.splits if_splits)

text \<open>
  C6. When \<open>load_data\<close> returns the null result, the script skips
  \<open>preprocess_data\<close> and \<open>save_prepared_data\<close>, prints its closing line, ends
  normally and has written no file. When the local file is absent and the fetch fails,
  what it printed is the opening line, one warning, one error and the closing line: two
  warning or error messages.
\<close>

theorem null_dataset_short_circuits:
  "(load_data ev (print MsgStart \<lparr>stdout = [], written = []\<rparr>) = (Inr None, s1) \<longrightarrow>
      main train_test_split ev = (Inr (), print MsgDone s1) \<and> written (print MsgDone s1) = []) \<and>
   (\<not> local_exists ev \<and> read_remote ev = Inl e \<and> is_Exception e \<longrightarrow>
      main train_test_split ev =
        (Inr (), \<lparr>stdout = [MsgStart, MsgNotFound filename, MsgDownloadFailed e, MsgDone],
                  written = []\<rparr>) \<and>
      length (filter (\<lambda>m. level_of m = WARNING \<or> level_of m = ERROR)
                [MsgStart, MsgNotFound filename, MsgDownloadFailed e, MsgDone]) = 2)"
proof (intro conjI impI)
  assume h: "load_data ev (print MsgStart \<lparr>stdout = [], written = []\<rparr>) = (Inr None, s1)"
  then show "main train_test_split ev = (Inr (), print MsgDone s1)"
    by (simp add: main_def)
  from load_data_written [OF h] show "written (print MsgDone s1) = []"
    by (simp add: print_def)
next
  assume "\<not> local_exists ev \<and> read_remote ev = Inl e \<and> is_Exception e"
  then show "main train_test_split ev =
        (Inr (), \<lparr>stdout = [MsgStart, MsgNotFound filename, MsgDownloadFailed e, MsgDone],
                  written = []\<rparr>)"
    by (simp add: main_def load_data_def Let_def print_def)
next
  show "length (filter (\<lambda>m. level_of m = WARNING \<or> level_of m = ERROR)
                [MsgStart, MsgNotFound filename, MsgDownloadFailed e, MsgDone]) = 2"
    by simp
qed

text \<open>No local file, and a fetch that fails with a network error.\<close>

theorem null_dataset_short_circuits_witness:
  "main (\<lambda>X y t r st. Inl ValueError)
     \<lparr>local_exists = False, read_local = Inl OSError, read_remote = Inl URLError,
      write_cache = None, write_train = None, write_test = None\<rparr> =
     (Inr (), \<lparr>stdout = [MsgStart, MsgNotFound ''heart_failure_raw.csv'',
                          MsgDownloadFailed URLError, MsgDone],
               written = []\<rparr>)"
  using null_dataset_short_circuits [of
     "\<lparr>local_exists = False, read_local = Inl OSError, read_remote = Inl URLError,
      write_cache = None, write_train = None, write_test = None\<rparr>"
     "\<lparr>stdout = [MsgStart, MsgNotFound filename, MsgDownloadFailed URLError], written = []\<rparr>"
     "\<lambda>X y t r st. Inl ValueError" URLError]
  by (simp add: is_Exception_def filename_def)

section \<open>The time column\<close>

lemma columns_drop_columns:
  "drop_columns df names = Inr df' \<Longrightarrow> set (columns df') = set (columns df) - set names"
  by (auto simp: drop_columns_def columns_def split: list.splits)

lemma drop_time_ok:
  "\<exists>df1. drop_time df = Inr df1 \<and> ''time'' \<notin> set (columns df1) \<and>
         (''time'' \<notin> set (columns df) \<longrightarrow> df1 = df)"
proof (cases "''time'' \<in> set (columns df)")
  case True
  then obtain df1 where d: "drop_columns df [''time''] = Inr df1"
    by (simp add: drop_columns_def)
  from columns_drop_columns [OF d] True d show ?thesis
    by (simp add: drop_time_def)
next
  case False
  then show ?thesis by (simp add: drop_time_def)
qed

lemma map_fst_replace:
  "map fst (map (\<lambda>(n, old). if n = c then (n, col) else (n, old)) xs) = map fst xs"
  by (induction xs) auto

lemma map_fst_filter:
  "map fst (filter (\<lambda>(n, col). P n) xs) = filter P (map fst xs)"
  by (induction xs) auto

lemma columns_setitem_list:
  "columns (setitem df c col) =
     (if c \<in> set (columns df) then columns df else columns df @ [c])"
  unfolding setitem_def columns_def
  by (simp add: map_fst_replace del: map_map)

lemma columns_setitem:
  "set (columns (setitem df c col)) = insert c (set (columns df))"
  unfolding columns_setitem_list by auto

lemma columns_bin_age:
  "bin_age df = Inr df' \<Longrightarrow> set (columns df') = insert ''age_category'' (set (columns df))"
  by (auto simp: bin_age_def columns_setitem split: sum.splits)

lemma columns_get_dummies_list:
  assumes "get_dummies df c p = Inr df'"
  shows "\<exists>cats. columns df' =
           filter (\<lambda>n. n \<noteq> c) (columns df) @ map (\<lambda>cat. p @ ''_'' @ cat) cats"
proof -
  from assms obtain cats vs where
    "df' = df\<lparr>cols := filter (\<lambda>(n, col). n \<noteq> c) (cols df) @
                 map (\<lambda>cat. (p @ ''_'' @ cat, BoolCol (map (\<lambda>v. v = Some cat) vs))) cats\<rparr>"
    by (auto simp: get_dummies_def split: sum.splits column.splits)
  then have "columns df' =
               filter (\<lambda>n. n \<noteq> c) (columns df) @ map (\<lambda>cat. p @ ''_'' @ cat) cats"
    unfolding columns_def by (simp add: map_fst_filter comp_def)
  then show ?thesis ..
qed

lemma columns_get_dummies:
  assumes "get_dummies df c ''age'' = Inr df'" and "n \<in> set (columns df')"
  shows "n \<in> set (columns df) \<or> (\<exists>cat. n = ''age_'' @ cat)"
proof -
  from columns_get_dummies_list [OF assms(1)] obtain cats where
    "columns df' = filter (\<lambda>n. n \<noteq> c) (columns df) @ map (\<lambda>cat. ''age'' @ ''_'' @ cat) cats"
    by blast
  with assms(2) show ?thesis by auto
qed

lemma columns_handle_outliers:
  "handle_outliers df c s = (Inr out, s') \<Longrightarrow> columns out = columns df"
  by (auto simp: handle_outliers_def Let_def columns_def reset_index_def df_select_def
        split: sum.splits column.splits)

lemma split_target_columns:
  "split_target df = Inr (X, y) \<Longrightarrow>
     set (columns X) \<subseteq> set (columns df) \<and> sname y = ''DEATH_EVENT''"
  by (auto simp: split_target_def dest: columns_drop_columns split: sum.splits)

lemma preprocess_data_steps:
  assumes "preprocess_data df s = (Inr (X, y), s')"
  shows "\<exists>df1 df2 df3 df4.
           drop_time df = Inr df1 \<and> bin_age df1 = Inr df2 \<and>
           get_dummies df2 ''age_category'' ''age'' = Inr df3 \<and>
           handle_outliers df3 ''serum_creatinine'' s = (Inr df4, s') \<and>
           split_target df4 = Inr (X, y)"
  using assms
  by (auto simp: preprocess_data_def split: sum.splits prod.splits)

text \<open>
  C7. Whatever the input frame, the features X that \<open>preprocess_data\<close> returns have
  no column named \<open>time\<close>, and the target is not named \<open>time\<close> either. Step 1
  itself never raises: it gives a frame without \<open>time\<close>, and the input unchanged when
  the input has no such column.
\<close>

theorem time_column_dropped:
  "(preprocess_data df s = (Inr (X, y), s') \<longrightarrow>
      ''time'' \<notin> set (columns X) \<and> sname y \<noteq> ''time'') \<and>
   (\<exists>df1. drop_time df = Inr df1 \<and> ''time'' \<notin> set (columns df1) \<and>
          (''time'' \<notin> set (columns df) \<longrightarrow> df1 = df))"
proof (intro conjI impI)
  assume "preprocess_data df s = (Inr (X, y), s')"
  from preprocess_data_steps [OF this] obtain df1 df2 df3 df4 where
    1: "drop_time df = Inr df1" and 2: "bin_age df1 = Inr df2" and
    3: "get_dummies df2 ''age_category'' ''age'' = Inr df3" and
    4: "handle_outliers df3 ''serum_creatinine'' s = (Inr df4, s')" and
    5: "split_target df4 = Inr (X, y)"
    by blast
  from drop_time_ok [of df] 1 have a: "''time'' \<notin> set (columns df1)"
    by simp
  with columns_bin_age [OF 2] have b: "''time'' \<notin> set (columns df2)"
    by simp
  have c: "''time'' \<notin> set (columns df3)"
  proof
    assume "''time'' \<in> set (columns df3)"
    from columns_get_dummies [OF 3 this] b show False by simp
  qed
  with columns_handle_outliers [OF 4] have d: "''time'' \<notin> set (columns df4)"
    by simp
  with split_target_columns [OF 5] show "''time'' \<notin> set (columns X)"
    by blast
  from split_target_columns [OF 5] show "sname y \<noteq> ''time''"
    by simp
next
  show "\<exists>df1. drop_time df = Inr df1 \<and> ''time'' \<notin> set (columns df1) \<and>
          (''time'' \<notin> set (columns df) \<longrightarrow> df1 = df)"
    by (rule drop_time_ok)
qed

text \<open>Three rows with the columns age, serum\_creatinine, time and DEATH\_EVENT.\<close>

theorem time_column_dropped_witness:
  "preprocess_data
     \<lparr>index = [0, 1, 2],
      cols = [(''age'', FloatCol [Num 60, Num 61, Num 80]),
              (''serum_creatinine'', FloatCol [Num 1, Num 2, Num 3]),
              (''time'', FloatCol [Num 4, Num 6, Num 7]),
              (''DEATH_EVENT'', FloatCol [Num 1, Num 0, Num 0])]\<rparr>
     \<lparr>stdout = [], written = []\<rparr> =
   (Inr (\<lparr>index = [0, 1, 2],
          cols = [(''age'', FloatCol [Num 60, Num 61, Num 80]),
                  (''serum_creatinine'', FloatCol [Num 1, Num 2, Num 3]),
                  (''age_Adult'', BoolCol [True, False, False]),
                  (''age_Senior'', BoolCol [False, True, False]),
                  (''age_Elderly'', BoolCol [False, False, True])]\<rparr>,
         \<lparr>sname = ''DEATH_EVENT'', sindex = [0, 1, 2], svalues = FloatCol [Num 1, Num 0, Num 0]\<rparr>),
    \<lparr>stdout = [MsgOutlier ''serum_creatinine'' 0], written = []\<rparr>)
   \<and> ''time'' \<notin> set (columns
         \<lparr>index = [0, 1, 2],
          cols = [(''age'', FloatCol [Num 60, Num 61, Num 80]),
                  (''serum_creatinine'', FloatCol [Num 1, Num 2, Num 3]),
                  (''age_Adult'', BoolCol [True, False, False]),
                  (''age_Senior'', BoolCol [False, True, False]),
                  (''age_Elderly'', BoolCol [False, False, True])]\<rparr>)"
proof -
  let ?df = "\<lparr>index = [0, 1, 2],
      cols = [(''age'', FloatCol [Num 60, Num 61, Num 80]),
              (''serum_creatinine'', FloatCol [Num 1, Num 2, Num 3]),
              (''time'', FloatCol [Num 4, Num 6, Num 7]),
              (''DEATH_EVENT'', FloatCol [Num 1, Num 0, Num 0])]\<rparr>"
  let ?X = "\<lparr>index = [0, 1, 2],
          cols = [(''age'', FloatCol [Num 60, Num 61, Num 80]),
                  (''serum_creatinine'', FloatCol [Num 1, Num 2, Num 3]),
                  (''age_Adult'', BoolCol [True, False, False]),
                  (''age_Senior'', BoolCol [False, True, False]),
                  (''age_Elderly'', BoolCol [False, False, True])]\<rparr>"
  let ?y = "\<lparr>sname = ''DEATH_EVENT'', sindex = [0, 1, 2], svalues = FloatCol [Num 1, Num 0, Num 0]\<rparr>"
  let ?s = "\<lparr>stdout = [], written = []\<rparr>"
  let ?s' = "\<lparr>stdout = [MsgOutlier ''serum_creatinine'' 0], written = []\<rparr>"
  have h: "preprocess_data ?df ?s = (Inr (?X, ?y), ?s')"
    by (simp add: preprocess_data_def drop_time_def drop_columns_def columns_def bin_age_def
          getitem_def setitem_def bins_def labels_def cut_value_def searchsorted_left_def
          get_dummies_def handle_outliers_def quantile_def finite_values_def Let_def shape_def
          df_select_def select_def reset_index_def print_def split_target_def)
  from time_column_dropped [of ?df ?s ?X ?y ?s'] h
  have t: "''time'' \<notin> set (columns ?X)"
    by blast
  from h t time_column_dropped [of ?df ?s ?X ?y ?s'] show ?thesis
    by - (rule conjI, assumption+)
qed

end
